theory Spec2Isabelle
  imports Complex_Main "HOL-Library.Word" "HOL-Library.Monad_Syntax"
begin

section \<open>The arithmetic the spline is written over\<close>

text \<open>
  \<^verbatim>\<open>verbatim_spline.hpp\<close> computes with the C++ type \<^verbatim>\<open>float\<close> and with the
  vector type \<^verbatim>\<open>vec3\<close> of the intro's own maths headers, which are not part of the
  sources at hand. Every function of the spline therefore takes the arithmetic as a
  parameter \<open>ar\<close>: a record of the operations the code calls. Nothing is assumed about
  them unless a theorem says so, so a theorem that holds for every \<open>ar\<close> holds for
  IEEE single precision with its rounding, infinities and NaN just as for exact
  arithmetic.

  \<^item> \<open>to_float\<close> is \<^verbatim>\<open>static_cast<float>\<close> of an integer; the literals \<^verbatim>\<open>0.0f\<close>,
    \<^verbatim>\<open>1.0f\<close> and \<^verbatim>\<open>3.0f\<close> are \<open>to_float ar 0\<close>, \<open>to_float ar 1\<close>, \<open>to_float ar 3\<close>;
  \<^item> \<open>fadd\<close>, \<open>fsub\<close>, \<open>fdiv\<close> are \<^verbatim>\<open>+\<close>, \<^verbatim>\<open>-\<close>, \<^verbatim>\<open>/\<close> on \<^verbatim>\<open>float\<close> and
    \<open>fgt a b\<close> is \<^verbatim>\<open>a > b\<close>;
  \<^item> \<open>vec3\<close> builds a vector from three floats; \<open>vadd\<close>, \<open>vsub\<close> and \<open>vscale\<close> are
    \<^verbatim>\<open>+\<close>, \<^verbatim>\<open>-\<close> on vectors and \<^verbatim>\<open>*\<close> of a vector by a float;
  \<^item> \<open>mix\<close>, \<open>normalize\<close>, \<open>length_v\<close> (the source's \<^verbatim>\<open>length\<close>) and
    \<open>dnload_sqrtf\<close> are the library functions of those names.
\<close>

record ('f, 'v) arith =
  to_float :: "int \<Rightarrow> 'f"
  fadd :: "'f \<Rightarrow> 'f \<Rightarrow> 'f"
  fsub :: "'f \<Rightarrow> 'f \<Rightarrow> 'f"
  fdiv :: "'f \<Rightarrow> 'f \<Rightarrow> 'f"
  fgt :: "'f \<Rightarrow> 'f \<Rightarrow> bool"
  vec3 :: "'f \<Rightarrow> 'f \<Rightarrow> 'f \<Rightarrow> 'v"
  vadd :: "'v \<Rightarrow> 'v \<Rightarrow> 'v"
  vsub :: "'v \<Rightarrow> 'v \<Rightarrow> 'v"
  vscale :: "'v \<Rightarrow> 'f \<Rightarrow> 'v"
  mix :: "'v \<Rightarrow> 'v \<Rightarrow> 'f \<Rightarrow> 'v"
  normalize :: "'v \<Rightarrow> 'v"
  length_v :: "'v \<Rightarrow> 'f"
  dnload_sqrtf :: "'f \<Rightarrow> 'f"

section \<open>Data\<close>

text \<open>
  The stream holds \<^verbatim>\<open>int16_t\<close> values; \<open>sint\<close> reads one as a signed integer. The
  loop counters and the size of the sequence are \<open>nat\<close> and the indices passed to
  \<^verbatim>\<open>getPointClamped\<close> are \<open>int\<close>: they count the points of one curve, which is taken to
  stay within the range of \<^verbatim>\<open>int\<close>. The weighted blend is stated for every base index,
  so its conversion of the \<^verbatim>\<open>unsigned\<close> index to \<^verbatim>\<open>int\<close> is written out on 32 bits; the
  Bezier blend is stated for the indices of points only, where that conversion is the
  identity.
\<close>

type_synonym int16_t = "16 word"

datatype SplineMode = WEIGHTED | BEZIER

text \<open>The value of an enumerator converted to \<^verbatim>\<open>bool\<close>: non-zero is true.\<close>

fun bool_of_mode :: "SplineMode \<Rightarrow> bool" where
  "bool_of_mode WEIGHTED = False"
| "bool_of_mode BEZIER = True"

text \<open>
  Modelled from the spec: the class \<^verbatim>\<open>SplinePoint\<close> of \<^verbatim>\<open>verbatim_spline_point.hpp\<close>,
  which is not among the sources. The spec's control point holds an anchor, the
  duration to the next point and the two tangent helper positions, with accessors and
  mutators only; the fields are named after the accessors the spline calls.
\<close>

record ('f, 'v) SplinePoint =
  getPoint :: 'v
  getTimestamp :: 'f
  getPrev :: 'v
  getNext :: 'v

text \<open>
  Modelled from the spec: the constructor \<^verbatim>\<open>SplinePoint(pos, stamp)\<close> that
  \<^verbatim>\<open>emplace_back\<close> calls. The spec leaves the tangent helpers "undefined/zero until
  precompute has run"; they are the zero vector here.
\<close>

definition SplinePoint_new :: "('f, 'v) arith \<Rightarrow> 'v \<Rightarrow> 'f \<Rightarrow> ('f, 'v) SplinePoint" where
  "SplinePoint_new ar pos stamp =
     \<lparr>getPoint = pos, getTimestamp = stamp,
      getPrev = vec3 ar (to_float ar 0) (to_float ar 0) (to_float ar 0),
      getNext = vec3 ar (to_float ar 0) (to_float ar 0) (to_float ar 0)\<rparr>"

definition setPrev :: "'v \<Rightarrow> ('f, 'v) SplinePoint \<Rightarrow> ('f, 'v) SplinePoint" where
  "setPrev v p = p\<lparr>getPrev := v\<rparr>"

definition setNext :: "'v \<Rightarrow> ('f, 'v) SplinePoint \<Rightarrow> ('f, 'v) SplinePoint" where
  "setNext v p = p\<lparr>getNext := v\<rparr>"

text \<open>The members of \<^verbatim>\<open>class Spline\<close>: the point sequence and the mode, kept as a \<^verbatim>\<open>bool\<close>.\<close>

record ('f, 'v) Spline =
  m_points :: "('f, 'v) SplinePoint list"
  m_mode :: bool

text \<open>The constructor \<^verbatim>\<open>Spline(SplineMode mode)\<close>: no points, the mode converted to \<^verbatim>\<open>bool\<close>.\<close>

definition Spline_new :: "SplineMode \<Rightarrow> ('f, 'v) Spline" where
  "Spline_new mode = \<lparr>m_points = [], m_mode = bool_of_mode mode\<rparr>"

text \<open>
  What a call can end in besides a value: the two \<^verbatim>\<open>std::runtime_error\<close>s the source
  throws when it is built with \<^verbatim>\<open>USE_LD\<close>, and the undefined behaviour of C++ (a read
  past the end of the stream, \<^verbatim>\<open>front()\<close> or \<^verbatim>\<open>back()\<close> of an empty sequence).
\<close>

datatype error =
  InvalidTimestamp int
| IncorrectSplineData
| UndefinedBehaviour

section \<open>The point sequence\<close>

text \<open>
  Modelled from the spec: \<^verbatim>\<open>front()\<close> and \<^verbatim>\<open>back()\<close> of the sequence type \<^verbatim>\<open>seq\<close>,
  whose header is not among the sources: the first and the last element, and no value
  (\<open>None\<close>) on an empty sequence.
\<close>

definition seq_front :: "'a list \<Rightarrow> 'a option" where
  "seq_front xs = (if xs = [] then None else Some (hd xs))"

definition seq_back :: "'a list \<Rightarrow> 'a option" where
  "seq_back xs = (if xs = [] then None else Some (last xs))"

text \<open>\<^verbatim>\<open>const SplinePoint& getPointClamped(int idx) const\<close>, lines 103 to 114.\<close>

definition getPointClamped :: "('f, 'v) Spline \<Rightarrow> int \<Rightarrow> ('f, 'v) SplinePoint option" where
  "getPointClamped s idx =
     (if int (length (m_points s)) \<le> idx then seq_back (m_points s)
      else if 0 > idx then seq_front (m_points s)
      else Some (m_points s ! nat idx))"

section \<open>Adding points\<close>

text \<open>\<^verbatim>\<open>void addPoint(const vec3 &pos, float stamp)\<close>, lines 35 to 38.\<close>

definition addPoint :: "('f, 'v) arith \<Rightarrow> 'v \<Rightarrow> 'f \<Rightarrow> ('f, 'v) Spline \<Rightarrow> ('f, 'v) Spline" where
  "addPoint ar pos stamp s = s\<lparr>m_points := m_points s @ [SplinePoint_new ar pos stamp]\<rparr>"

text \<open>
  \<^verbatim>\<open>void addPoint(int16_t op1, int16_t op2, int16_t op3, int16_t op4)\<close>, lines 45 to 57.
  \<open>use_ld\<close> says whether the build defines \<^verbatim>\<open>USE_LD\<close>. A call ends in an error or in
  a value, and in the spline as the call left it: an exception leaves the object in the
  state it had when thrown.
\<close>

definition addPoint_wrapper ::
  "bool \<Rightarrow> ('f, 'v) arith \<Rightarrow> int16_t \<Rightarrow> int16_t \<Rightarrow> int16_t \<Rightarrow> int16_t \<Rightarrow> ('f, 'v) Spline
     \<Rightarrow> (error + unit) \<times> ('f, 'v) Spline" where
  "addPoint_wrapper use_ld ar op1 op2 op3 op4 s =
     (if use_ld \<and> 0 > sint op4 then (Inl (InvalidTimestamp (sint op4)), s)
      else (Inr (),
            addPoint ar
              (vec3 ar (to_float ar (sint op1)) (to_float ar (sint op2)) (to_float ar (sint op3)))
              (to_float ar (sint op4)) s))"

section \<open>The two blends\<close>

text \<open>\<^verbatim>\<open>vec3 splineInterpolateBezier(unsigned idx, float interp) const\<close>, lines 63 to 79.\<close>

definition splineInterpolateBezier ::
  "('f, 'v) arith \<Rightarrow> ('f, 'v) Spline \<Rightarrow> nat \<Rightarrow> 'f \<Rightarrow> 'v option" where
  "splineInterpolateBezier ar s idx interp = do {
     let sidx = int idx;
     curr \<leftarrow> getPointClamped s sidx;
     next \<leftarrow> getPointClamped s (sidx + 1);
     let aa = getPoint curr;
     let bb = getNext curr;
     let cc = getPrev next;
     let dd = getPoint next;
     let ee = mix ar aa bb interp;
     let ff = mix ar bb cc interp;
     let gg = mix ar cc dd interp;
     let hh = mix ar ee ff interp;
     let ii = mix ar ff gg interp;
     Some (mix ar hh ii interp)
   }"

text \<open>
  \<^verbatim>\<open>vec3 splineInterpolateWeighted(unsigned idx, float interp) const\<close>, lines 85 to 97.
  The base index is a 32-bit \<^verbatim>\<open>unsigned\<close> and \<^verbatim>\<open>static_cast<int>(idx)\<close> reads its bits as a
  signed value: \<open>idx\<close> itself below \<open>2^31\<close>, and \<open>idx - 2^32\<close> from there on.
\<close>

definition splineInterpolateWeighted ::
  "('f, 'v) arith \<Rightarrow> ('f, 'v) Spline \<Rightarrow> nat \<Rightarrow> 'f \<Rightarrow> 'v option" where
  "splineInterpolateWeighted ar s idx interp = do {
     let sidx = sint (word_of_nat idx :: 32 word);
     pa \<leftarrow> getPointClamped s (sidx - 1);
     pb \<leftarrow> getPointClamped s (sidx + 0);
     pc \<leftarrow> getPointClamped s (sidx + 1);
     pd \<leftarrow> getPointClamped s (sidx + 2);
     let aa = getPoint pa;
     let bb = getPoint pb;
     let cc = getPoint pc;
     let dd = getPoint pd;
     let ee = mix ar aa bb interp;
     let ff = mix ar bb cc interp;
     let gg = mix ar cc dd interp;
     Some (vscale ar (vadd ar (vadd ar ee ff) gg) (fdiv ar (to_float ar 1) (to_float ar 3)))
   }"

section \<open>Tangent precalculation\<close>

text \<open>
  \<^verbatim>\<open>void precalculate()\<close>, lines 117 to 129. The loop writes the two tangent helpers of
  point \<open>ii\<close> into the sequence and goes on with the updated sequence, as the source
  does through the reference \<^verbatim>\<open>vv\<close>.
\<close>

function precalculate_loop ::
  "('f, 'v) arith \<Rightarrow> nat \<Rightarrow> ('f, 'v) Spline \<Rightarrow> ('f, 'v) Spline option" where
  "precalculate_loop ar ii s =
     (if int (length (m_points s)) > int ii then do {
        let vv = m_points s ! ii;
        pp \<leftarrow> getPointClamped s (int ii - 1);
        pn \<leftarrow> getPointClamped s (int ii + 1);
        let prev = getPoint pp;
        let next = getPoint pn;
        let curr = getPoint vv;
        let vv1 = setPrev (vadd ar (vscale ar (normalize ar (vsub ar prev next))
                                      (dnload_sqrtf ar (length_v ar (vsub ar prev curr)))) curr) vv;
        let vv2 = setNext (vadd ar (vscale ar (normalize ar (vsub ar next prev))
                                      (dnload_sqrtf ar (length_v ar (vsub ar next curr)))) curr) vv1;
        precalculate_loop ar (ii + 1) (s\<lparr>m_points := (m_points s)[ii := vv2]\<rparr>)
      }
      else Some s)"
  by pat_completeness auto
termination
  by (relation "measure (\<lambda>(ar, ii, s). length (m_points s) - ii)") auto

declare precalculate_loop.simps [simp del]

definition precalculate :: "('f, 'v) arith \<Rightarrow> ('f, 'v) Spline \<Rightarrow> ('f, 'v) Spline option" where
  "precalculate ar s = precalculate_loop ar 0 s"

section \<open>Reading the stream\<close>

text \<open>
  The stream is the list \<open>mem\<close> of the \<^verbatim>\<open>int16_t\<close> values in memory and a pointer into
  it is an index. \<^verbatim>\<open>static bool is_segment_end(const int16_t *data)\<close>, lines 198 to 204.
\<close>

definition is_segment_end :: "int16_t list \<Rightarrow> nat \<Rightarrow> bool" where
  "is_segment_end mem data \<longleftrightarrow>
     0 = mem ! data \<and> 0 = mem ! (data + 1) \<and> 0 = mem ! (data + 2) \<and> 0 = mem ! (data + 3)"

text \<open>
  \<^verbatim>\<open>const int16_t* readData(const int16_t *data)\<close>, lines 136 to 150. A group that does
  not lie within \<open>mem\<close> is read past the end of the stream, which is undefined
  behaviour; the loop ends there, at a terminator or at an exception of \<^verbatim>\<open>addPoint\<close>.
\<close>

function readData_loop ::
  "bool \<Rightarrow> ('f, 'v) arith \<Rightarrow> int16_t list \<Rightarrow> nat \<Rightarrow> ('f, 'v) Spline
     \<Rightarrow> (error + nat) \<times> ('f, 'v) Spline" where
  "readData_loop use_ld ar mem iter s =
     (let next = iter + 4 in
      if length mem < next then (Inl UndefinedBehaviour, s)
      else if is_segment_end mem iter then
        (case precalculate ar s of
           None \<Rightarrow> (Inl UndefinedBehaviour, s)
         | Some s' \<Rightarrow> (Inr next, s'))
      else
        (case addPoint_wrapper use_ld ar (mem ! iter) (mem ! (iter + 1)) (mem ! (iter + 2))
                (mem ! (iter + 3)) s of
           (Inl e, s') \<Rightarrow> (Inl e, s')
         | (Inr u, s') \<Rightarrow> readData_loop use_ld ar mem next s'))"
  by pat_completeness auto
termination
  by (relation "measure (\<lambda>(use_ld, ar, mem, iter, s). length mem - iter)") auto

declare readData_loop.simps [simp del]

definition readData ::
  "bool \<Rightarrow> ('f, 'v) arith \<Rightarrow> int16_t list \<Rightarrow> nat \<Rightarrow> ('f, 'v) Spline
     \<Rightarrow> (error + nat) \<times> ('f, 'v) Spline" where
  "readData use_ld ar mem data s = readData_loop use_ld ar mem data s"

section \<open>Resolving a position\<close>

text \<open>
  The loop of \<^verbatim>\<open>vec3 resolvePosition(float stamp) const\<close>, lines 164 to 183, from
  counter \<open>ii\<close> and accumulated time \<open>current_time\<close> on. \<open>None\<close> is the undefined
  behaviour of \<^verbatim>\<open>back()\<close> on an empty sequence.
\<close>

function resolvePosition_loop ::
  "('f, 'v) arith \<Rightarrow> ('f, 'v) Spline \<Rightarrow> 'f \<Rightarrow> nat \<Rightarrow> 'f \<Rightarrow> 'v option" where
  "resolvePosition_loop ar s stamp ii current_time =
     (if length (m_points s) > ii then
        (let vv = m_points s ! ii;
             current_segment = getTimestamp vv
         in if fgt ar (fadd ar current_time current_segment) stamp then
              (let interp = fdiv ar (fsub ar stamp current_time) current_segment
               in if m_mode s = bool_of_mode BEZIER then splineInterpolateBezier ar s ii interp
                  else splineInterpolateWeighted ar s ii interp)
            else resolvePosition_loop ar s stamp (ii + 1) (fadd ar current_time current_segment))
      else map_option getPoint (seq_back (m_points s)))"
  by pat_completeness auto
termination
  by (relation "measure (\<lambda>(ar, s, stamp, ii, current_time). length (m_points s) - ii)") auto

declare resolvePosition_loop.simps [simp del]

text \<open>\<^verbatim>\<open>vec3 resolvePosition(float stamp) const\<close>, lines 155 to 184.\<close>

definition resolvePosition ::
  "bool \<Rightarrow> ('f, 'v) arith \<Rightarrow> ('f, 'v) Spline \<Rightarrow> 'f \<Rightarrow> error + 'v" where
  "resolvePosition use_ld ar s stamp =
     (if use_ld \<and> m_points s = [] then Inl IncorrectSplineData
      else (case resolvePosition_loop ar s stamp 0 (to_float ar 0) of
              None \<Rightarrow> Inl UndefinedBehaviour
            | Some v \<Rightarrow> Inr v))"

text \<open>\<^verbatim>\<open>vec3 resolvePosition(unsigned stamp) const\<close>, lines 188 to 191.\<close>

definition resolvePosition_unsigned ::
  "bool \<Rightarrow> ('f, 'v) arith \<Rightarrow> ('f, 'v) Spline \<Rightarrow> 32 word \<Rightarrow> error + 'v" where
  "resolvePosition_unsigned use_ld ar s stamp = resolvePosition use_ld ar s (to_float ar (uint stamp))"

section \<open>An arithmetic to evaluate with\<close>

text \<open>
  Modelled from the spec: the vector primitives of the maths headers that are not among
  the sources (\<^verbatim>\<open>vec3\<close>, its \<^verbatim>\<open>+\<close>, \<^verbatim>\<open>-\<close> and \<^verbatim>\<open>*\<close>, \<^verbatim>\<open>mix\<close>, \<^verbatim>\<open>normalize\<close>, \<^verbatim>\<open>length\<close>,
  \<^verbatim>\<open>dnload_sqrtf\<close>), which the spec takes to be "a correct, already-available
  linear-algebra library": a vector is a triple of reals, \<open>mix\<close> is the linear mix of
  two vectors, \<open>normalize\<close> divides a vector by its Euclidean length.

  For the operators \<^verbatim>\<open>+\<close>, \<^verbatim>\<open>-\<close>, \<^verbatim>\<open>/\<close> and \<^verbatim>\<open>>\<close> of \<^verbatim>\<open>float\<close> the record \<open>exact\<close> has the
  operations of the real numbers. It is not a model of binary32: it does not round, and
  a quotient by zero is 0 where \<^verbatim>\<open>float\<close> has an infinity or NaN. No property of the
  code is stated over it. It serves to show that the hypotheses of a theorem can be
  met, and to evaluate the code on small curves (coordinates, durations and timestamps
  of a few hundred at most), where every value can be recomputed by hand and differs
  from the binary32 value by the rounding of the last places at most.
\<close>

type_synonym rvec3 = "real \<times> real \<times> real"

fun vadd_exact :: "rvec3 \<Rightarrow> rvec3 \<Rightarrow> rvec3" where
  "vadd_exact (x1, y1, z1) (x2, y2, z2) = (x1 + x2, y1 + y2, z1 + z2)"

fun vsub_exact :: "rvec3 \<Rightarrow> rvec3 \<Rightarrow> rvec3" where
  "vsub_exact (x1, y1, z1) (x2, y2, z2) = (x1 - x2, y1 - y2, z1 - z2)"

fun vscale_exact :: "rvec3 \<Rightarrow> real \<Rightarrow> rvec3" where
  "vscale_exact (x, y, z) k = (x * k, y * k, z * k)"

fun length_exact :: "rvec3 \<Rightarrow> real" where
  "length_exact (x, y, z) = sqrt (x * x + y * y + z * z)"

definition mix_exact :: "rvec3 \<Rightarrow> rvec3 \<Rightarrow> real \<Rightarrow> rvec3" where
  "mix_exact a b t = vadd_exact a (vscale_exact (vsub_exact b a) t)"

definition normalize_exact :: "rvec3 \<Rightarrow> rvec3" where
  "normalize_exact v = vscale_exact v (1 / length_exact v)"

definition exact :: "(real, rvec3) arith" where
  "exact =
     \<lparr>to_float = real_of_int, fadd = (+), fsub = (-), fdiv = (/), fgt = (\<lambda>a b. a > b),
      vec3 = (\<lambda>x y z. (x, y, z)), vadd = vadd_exact, vsub = vsub_exact, vscale = vscale_exact,
      mix = mix_exact, normalize = normalize_exact, length_v = length_exact,
      dnload_sqrtf = sqrt\<rparr>"

section \<open>Notions the properties are stated with\<close>

text \<open>
  The clamped index of the spec's glossary, "an index that saturates to the first or
  last valid element", for a sequence of \<open>n\<close> elements, and the anchor found there.
\<close>

definition clampedIndex :: "nat \<Rightarrow> int \<Rightarrow> nat" where
  "clampedIndex n idx = nat (max 0 (min (int n - 1) idx))"

definition clampedAnchor :: "('f, 'v) Spline \<Rightarrow> int \<Rightarrow> 'v" where
  "clampedAnchor s idx = getPoint (m_points s ! clampedIndex (length (m_points s)) idx)"

text \<open>
  The two tangent helper positions of point \<open>i\<close> as the spec gives them:
  \<^verbatim>\<open>normalize(prev - next) * sqrt(length(prev - curr)) + curr\<close> and
  \<^verbatim>\<open>normalize(next - prev) * sqrt(length(next - curr)) + curr\<close>, with \<open>prev\<close> and \<open>next\<close>
  the clamped anchors at \<open>i - 1\<close> and \<open>i + 1\<close> and \<open>curr\<close> the anchor of point \<open>i\<close>.
\<close>

definition prevTangentAnchor :: "('f, 'v) arith \<Rightarrow> ('f, 'v) Spline \<Rightarrow> nat \<Rightarrow> 'v" where
  "prevTangentAnchor ar s i =
     (let prev = clampedAnchor s (int i - 1);
          next = clampedAnchor s (int i + 1);
          curr = getPoint (m_points s ! i)
      in vadd ar (vscale ar (normalize ar (vsub ar prev next))
                    (dnload_sqrtf ar (length_v ar (vsub ar prev curr)))) curr)"

definition nextTangentAnchor :: "('f, 'v) arith \<Rightarrow> ('f, 'v) Spline \<Rightarrow> nat \<Rightarrow> 'v" where
  "nextTangentAnchor ar s i =
     (let prev = clampedAnchor s (int i - 1);
          next = clampedAnchor s (int i + 1);
          curr = getPoint (m_points s ! i)
      in vadd ar (vscale ar (normalize ar (vsub ar next prev))
                    (dnload_sqrtf ar (length_v ar (vsub ar next curr)))) curr)"

text \<open>The curve with the tangent helpers of every point set to these positions.\<close>

definition precalculated :: "('f, 'v) arith \<Rightarrow> ('f, 'v) Spline \<Rightarrow> ('f, 'v) Spline" where
  "precalculated ar s =
     s\<lparr>m_points :=
         map (\<lambda>i. (m_points s ! i)\<lparr>getPrev := prevTangentAnchor ar s i,
                                     getNext := nextTangentAnchor ar s i\<rparr>)
           [0..<length (m_points s)]\<rparr>"

text \<open>
  The cumulative duration before point \<open>i\<close>: the durations of the first \<open>i\<close> points
  added up from \<^verbatim>\<open>0.0f\<close> in the order of the sequence, in the arithmetic of the code.
\<close>

definition time_before :: "('f, 'v) arith \<Rightarrow> ('f, 'v) Spline \<Rightarrow> nat \<Rightarrow> 'f" where
  "time_before ar s i = foldl (fadd ar) (to_float ar 0) (map getTimestamp (take i (m_points s)))"

text \<open>A stream: the groups of four values one after the other, then the terminator group.\<close>

type_synonym group = "int16_t \<times> int16_t \<times> int16_t \<times> int16_t"

fun group_values :: "group \<Rightarrow> int16_t list" where
  "group_values (x, y, z, d) = [x, y, z, d]"

definition stream_of :: "group list \<Rightarrow> int16_t list" where
  "stream_of gs = concat (map group_values gs) @ [0, 0, 0, 0]"

text \<open>The point a group decodes to.\<close>

fun point_of :: "('f, 'v) arith \<Rightarrow> group \<Rightarrow> ('f, 'v) SplinePoint" where
  "point_of ar (x, y, z, d) =
     SplinePoint_new ar
       (vec3 ar (to_float ar (sint x)) (to_float ar (sint y)) (to_float ar (sint z)))
       (to_float ar (sint d))"

text \<open>
  The stream of the spec's concrete scenario, two points with durations 10 and 10, and
  the curve a build without \<^verbatim>\<open>USE_LD\<close> decodes from it in the arithmetic \<open>exact\<close>.
\<close>

definition sample_stream :: "int16_t list" where
  "sample_stream = [0, 0, 0, 10, 100, 0, 0, 10, 0, 0, 0, 0]"

definition sample :: "SplineMode \<Rightarrow> (real, rvec3) Spline" where
  "sample mode = snd (readData False exact sample_stream 0 (Spline_new mode))"

text \<open>The two points of that scenario as \<^verbatim>\<open>addPoint\<close> leaves them, before the tangent pass.\<close>

definition sample_raw :: "SplineMode \<Rightarrow> (real, rvec3) Spline" where
  "sample_raw mode =
     addPoint exact (100, 0, 0) 10 (addPoint exact (0, 0, 0) 10 (Spline_new mode))"

text \<open>
  A stream with a negative duration, and the curve a build without \<^verbatim>\<open>USE_LD\<close> decodes
  from it in the arithmetic \<open>exact\<close>: three points with durations 10, -5 and 3.
\<close>

definition detour_stream :: "int16_t list" where
  "detour_stream = [0, 0, 0, 10, 100, 0, 0, - 5, 200, 0, 0, 3, 0, 0, 0, 0]"

definition detour :: "(real, rvec3) Spline" where
  "detour = snd (readData False exact detour_stream 0 (Spline_new WEIGHTED))"

text \<open>
  A stream with a zero duration, and the curve decoded from it in the arithmetic \<open>exact\<close>:
  three points with durations 10, 0 and 10.
\<close>

definition plateau_stream :: "int16_t list" where
  "plateau_stream = [0, 0, 0, 10, 100, 0, 0, 0, 200, 0, 0, 10, 0, 0, 0, 0]"

definition plateau :: "(real, rvec3) Spline" where
  "plateau = snd (readData False exact plateau_stream 0 (Spline_new WEIGHTED))"

section \<open>Evaluation and auxiliary facts\<close>

subsection \<open>Evaluation\<close>

text \<open>
  The equations that evaluate the model on concrete data, and the sample curves
  written out.
\<close>

lemmas eval_defs = readData_def readData_loop.simps sample_stream_def is_segment_end_def
  addPoint_wrapper_def addPoint_def Spline_new_def precalculate_def precalculate_loop.simps
  getPointClamped_def seq_front_def seq_back_def setPrev_def setNext_def SplinePoint_new_def
  exact_def normalize_exact_def Let_def

lemmas resolve_defs = resolvePosition_def resolvePosition_loop.simps splineInterpolateWeighted_def
  splineInterpolateBezier_def getPointClamped_def seq_front_def seq_back_def exact_def
  mix_exact_def Let_def

lemma exact_simps:
  "to_float exact n = real_of_int n"
  "fadd exact a b = a + b"
  "fsub exact a b = a - b"
  "fdiv exact a b = a / b"
  "fgt exact a b \<longleftrightarrow> b < a"
  by (simp_all add: exact_def)

lemma mix_exact_0: "mix_exact a b 0 = a"
  by (cases a; cases b) (simp add: mix_exact_def)

lemma mix_exact_1: "mix_exact a b 1 = b"
  by (cases a; cases b) (simp add: mix_exact_def)

lemma sample_eq:
  "sample mode =
     \<lparr>m_points =
        [\<lparr>getPoint = (0, 0, 0), getTimestamp = 10, getPrev = (0, 0, 0), getNext = (10, 0, 0)\<rparr>,
         \<lparr>getPoint = (100, 0, 0), getTimestamp = 10, getPrev = (90, 0, 0), getNext = (100, 0, 0)\<rparr>],
      m_mode = bool_of_mode mode\<rparr>"
  by (simp add: sample_def eval_defs)

lemma sample_raw_eq:
  "sample_raw mode =
     \<lparr>m_points =
        [\<lparr>getPoint = (0, 0, 0), getTimestamp = 10, getPrev = (0, 0, 0), getNext = (0, 0, 0)\<rparr>,
         \<lparr>getPoint = (100, 0, 0), getTimestamp = 10, getPrev = (0, 0, 0), getNext = (0, 0, 0)\<rparr>],
      m_mode = bool_of_mode mode\<rparr>"
  by (simp add: sample_raw_def eval_defs)

lemma plateau_eq:
  "plateau =
     \<lparr>m_points =
        [\<lparr>getPoint = (0, 0, 0), getTimestamp = 10, getPrev = (0, 0, 0), getNext = (10, 0, 0)\<rparr>,
         \<lparr>getPoint = (100, 0, 0), getTimestamp = 0, getPrev = (90, 0, 0), getNext = (110, 0, 0)\<rparr>,
         \<lparr>getPoint = (200, 0, 0), getTimestamp = 10, getPrev = (190, 0, 0), getNext = (200, 0, 0)\<rparr>],
      m_mode = False\<rparr>"
  by (simp add: plateau_def plateau_stream_def eval_defs)

lemma detour_eq:
  "detour =
     \<lparr>m_points =
        [\<lparr>getPoint = (0, 0, 0), getTimestamp = 10, getPrev = (0, 0, 0), getNext = (10, 0, 0)\<rparr>,
         \<lparr>getPoint = (100, 0, 0), getTimestamp = - 5, getPrev = (90, 0, 0), getNext = (110, 0, 0)\<rparr>,
         \<lparr>getPoint = (200, 0, 0), getTimestamp = 3, getPrev = (190, 0, 0), getNext = (200, 0, 0)\<rparr>],
      m_mode = False\<rparr>"
  by (simp add: detour_def detour_stream_def eval_defs)

subsection \<open>The clamped index\<close>

text \<open>
  On a non-empty sequence \<^verbatim>\<open>getPointClamped\<close> returns the point at the clamped index.
\<close>

lemma clampedIndex_neg: "idx < 0 \<Longrightarrow> clampedIndex n idx = 0"
  by (simp add: clampedIndex_def)

lemma clampedIndex_beyond: "int n \<le> idx \<Longrightarrow> clampedIndex n idx = n - 1"
  unfolding clampedIndex_def by (cases n) (simp_all add: min_def)

lemma clampedIndex_inside: "0 \<le> idx \<Longrightarrow> idx < int n \<Longrightarrow> clampedIndex n idx = nat idx"
  unfolding clampedIndex_def by linarith

lemma clampedIndex_less: "0 < n \<Longrightarrow> clampedIndex n idx < n"
  unfolding clampedIndex_def by linarith

lemma getPointClamped_clampedIndex:
  assumes "m_points s \<noteq> []"
  shows "getPointClamped s idx = Some (m_points s ! clampedIndex (length (m_points s)) idx)"
proof -
  consider "int (length (m_points s)) \<le> idx" | "idx < 0"
    | "0 \<le> idx" "idx < int (length (m_points s))"
    by linarith
  then show ?thesis
  proof cases
    case 1
    with assms show ?thesis
      by (simp add: getPointClamped_def seq_back_def clampedIndex_beyond last_conv_nth)
  next
    case 2
    with assms show ?thesis
      by (simp add: getPointClamped_def seq_front_def clampedIndex_neg hd_conv_nth)
  next
    case 3
    then show ?thesis
      by (simp add: getPointClamped_def clampedIndex_inside)
  qed
qed

lemma clampedAnchor_cong:
  fixes s s1 :: "('f, 'v) Spline"
  assumes "map getPoint (m_points s1) = map getPoint (m_points s)"
  shows "clampedAnchor s1 idx = clampedAnchor s idx"
proof (cases "m_points s = []")
  case True
  with assms show ?thesis by (simp add: clampedAnchor_def)
next
  case False
  from assms have len: "length (m_points s1) = length (m_points s)"
    by (metis length_map)
  from False have "clampedIndex (length (m_points s)) idx < length (m_points s)"
    by (simp add: clampedIndex_less)
  with assms len show ?thesis
    unfolding clampedAnchor_def by (metis nth_map)
qed

subsection \<open>The conversion of the base index\<close>

text \<open>\<^verbatim>\<open>static_cast<int>\<close> of a 32-bit \<^verbatim>\<open>unsigned\<close>, below and from \<open>2^31\<close> on.\<close>

lemma sint_unsigned_small: "idx < 2147483648 \<Longrightarrow> sint (word_of_nat idx :: 32 word) = int idx"
  by (simp add: signed_of_nat signed_take_bit_int_eq_self)

lemma sint_unsigned_big:
  "2147483648 \<le> idx \<Longrightarrow> idx < 4294967296 \<Longrightarrow>
   sint (word_of_nat idx :: 32 word) = int idx - 4294967296"
proof -
  assume "2147483648 \<le> idx" and "idx < 4294967296"
  then have range: "0 \<le> int idx - 2147483648" "int idx - 2147483648 < 4294967296"
    by simp_all
  have "int idx + 2147483648 = (int idx - 2147483648) + 4294967296"
    by simp
  then have "(int idx + 2147483648) mod 4294967296 = (int idx - 2147483648) mod 4294967296"
    by (simp only: mod_add_self2)
  also have "\<dots> = int idx - 2147483648"
    using range by (rule mod_pos_pos_trivial)
  finally have "(int idx + 2147483648) mod 4294967296 = int idx - 2147483648" .
  then show ?thesis
    by (simp add: signed_of_nat signed_take_bit_eq_take_bit_shift take_bit_eq_mod)
qed

subsection \<open>The blends\<close>

text \<open>
  On a non-empty sequence both blends return a value.
\<close>

lemma splineInterpolate_Some:
  assumes "m_points s \<noteq> []"
  shows "\<exists>v. splineInterpolateBezier ar s idx interp = Some v"
    and "\<exists>v. splineInterpolateWeighted ar s idx interp = Some v"
  using assms
  by (simp_all add: splineInterpolateBezier_def splineInterpolateWeighted_def
      getPointClamped_clampedIndex Let_def)

lemma splineInterpolateBezier_closed:
  assumes "m_points s \<noteq> []"
  shows "splineInterpolateBezier ar s idx interp =
    (let curr = m_points s ! clampedIndex (length (m_points s)) (int idx);
         next = m_points s ! clampedIndex (length (m_points s)) (int idx + 1);
         ee = mix ar (getPoint curr) (getNext curr) interp;
         ff = mix ar (getNext curr) (getPrev next) interp;
         gg = mix ar (getPrev next) (getPoint next) interp
     in Some (mix ar (mix ar ee ff interp) (mix ar ff gg interp) interp))"
  using assms
  by (simp add: splineInterpolateBezier_def getPointClamped_clampedIndex Let_def)

subsection \<open>The tangent pass\<close>

text \<open>
  The loop from counter \<open>ii\<close> on keeps the points before \<open>ii\<close> and gives every later point
  its two tangent helpers, computed from the anchors, which the loop never changes.
\<close>

lemma precalculate_loop_closed:
  "ii \<le> length (m_points s) \<Longrightarrow>
   precalculate_loop ar ii s =
     Some (s\<lparr>m_points := take ii (m_points s) @
              map (\<lambda>i. (m_points s ! i)\<lparr>getPrev := prevTangentAnchor ar s i,
                                         getNext := nextTangentAnchor ar s i\<rparr>)
                [ii..<length (m_points s)]\<rparr>)"
proof (induction "length (m_points s) - ii" arbitrary: ii s)
  case 0
  then show ?case
    by (subst precalculate_loop.simps) simp
next
  case (Suc k)
  let ?pts = "m_points s"
  let ?v = "(?pts ! ii)\<lparr>getPrev := prevTangentAnchor ar s ii, getNext := nextTangentAnchor ar s ii\<rparr>"
  let ?s1 = "s\<lparr>m_points := ?pts[ii := ?v]\<rparr>"
  from Suc.hyps(2) have lt: "ii < length ?pts" by simp
  then have ne: "?pts \<noteq> []" by auto
  have step: "precalculate_loop ar ii s = precalculate_loop ar (ii + 1) ?s1"
    using lt ne
    by (subst precalculate_loop.simps)
       (simp add: getPointClamped_clampedIndex setPrev_def setNext_def Let_def
          prevTangentAnchor_def nextTangentAnchor_def clampedAnchor_def)
  have anchors: "map getPoint (m_points ?s1) = map getPoint ?pts"
    using lt by (simp add: map_update list_update_same_conv)
  have same: "prevTangentAnchor ar ?s1 i = prevTangentAnchor ar s i
           \<and> nextTangentAnchor ar ?s1 i = nextTangentAnchor ar s i \<and> m_points ?s1 ! i = ?pts ! i"
    if "ii < i" for i
    using that clampedAnchor_cong [OF anchors]
    by (simp add: prevTangentAnchor_def nextTangentAnchor_def)
  have "precalculate_loop ar (ii + 1) ?s1 =
     Some (?s1\<lparr>m_points := take (ii + 1) (m_points ?s1) @
              map (\<lambda>i. (m_points ?s1 ! i)\<lparr>getPrev := prevTangentAnchor ar ?s1 i,
                                         getNext := nextTangentAnchor ar ?s1 i\<rparr>)
                [ii + 1..<length (m_points ?s1)]\<rparr>)"
    using Suc.hyps(2) lt by (intro Suc.hyps(1)) simp_all
  also have "map (\<lambda>i. (m_points ?s1 ! i)\<lparr>getPrev := prevTangentAnchor ar ?s1 i,
                                         getNext := nextTangentAnchor ar ?s1 i\<rparr>)
                [ii + 1..<length (m_points ?s1)] =
             map (\<lambda>i. (?pts ! i)\<lparr>getPrev := prevTangentAnchor ar s i,
                                         getNext := nextTangentAnchor ar s i\<rparr>)
                [ii + 1..<length ?pts]"
    using same by (intro map_cong) auto
  also have "take (ii + 1) (m_points ?s1) = take ii ?pts @ [?v]"
    using lt by (simp add: take_Suc_conv_app_nth)
  finally show ?case
    using lt by (simp add: step upt_conv_Cons)
qed

lemma precalculate_closed: "precalculate ar s = Some (precalculated ar s)"
  by (simp add: precalculate_def precalculated_def precalculate_loop_closed)

lemma map_nth_upt: "map (\<lambda>i. f (xs ! i)) [0..<length xs] = map f xs"
  by (rule nth_equalityI) auto

lemma precalculated_fields:
  "m_mode (precalculated ar s) = m_mode s"
  "length (m_points (precalculated ar s)) = length (m_points s)"
  "map getPoint (m_points (precalculated ar s)) = map getPoint (m_points s)"
  "map getTimestamp (m_points (precalculated ar s)) = map getTimestamp (m_points s)"
  by (simp_all add: precalculated_def comp_def map_nth_upt)

subsection \<open>Decoding\<close>

text \<open>
  One step of the loop at a terminator and at any other group, and the whole loop over
  a list of groups.
\<close>

lemma Suc4_eq: "Suc (Suc (Suc (Suc n))) = n + 4"
  by simp

lemma readData_loop_terminator:
  "readData_loop use_ld ar (pre @ [0, 0, 0, 0] @ post) (length pre) s =
     (Inr (length pre + 4), precalculated ar s)"
  by (subst readData_loop.simps)
     (simp add: is_segment_end_def nth_append precalculate_closed)

lemma readData_loop_group:
  assumes "(x, y, z, d) \<noteq> (0, 0, 0, 0)" and "use_ld \<longrightarrow> 0 \<le> sint d"
  shows "readData_loop use_ld ar (pre @ [x, y, z, d] @ rest) (length pre) s =
     readData_loop use_ld ar (pre @ [x, y, z, d] @ rest) (length pre + 4)
       (s\<lparr>m_points := m_points s @ [point_of ar (x, y, z, d)]\<rparr>)"
proof -
  have nz: "\<not> is_segment_end (pre @ [x, y, z, d] @ rest) (length pre)"
    using assms(1) by (auto simp: is_segment_end_def nth_append)
  have add: "addPoint_wrapper use_ld ar x y z d s =
      (Inr (), s\<lparr>m_points := m_points s @ [point_of ar (x, y, z, d)]\<rparr>)"
    using assms(2) by (auto simp: addPoint_wrapper_def addPoint_def)
  have nths: "(pre @ [x, y, z, d] @ rest) ! length pre = x"
    "(pre @ [x, y, z, d] @ rest) ! (length pre + 1) = y"
    "(pre @ [x, y, z, d] @ rest) ! (length pre + 2) = z"
    "(pre @ [x, y, z, d] @ rest) ! (length pre + 3) = d"
    by (simp_all add: nth_append)
  show ?thesis
    by (subst readData_loop.simps) (simp only: Let_def nz nths add, simp)
qed

lemma readData_loop_groups:
  assumes "\<forall>g \<in> set gs. g \<noteq> (0, 0, 0, 0)"
    and "use_ld \<longrightarrow> (\<forall>(x, y, z, d) \<in> set gs. 0 \<le> sint d)"
  shows "readData_loop use_ld ar (pre @ stream_of gs @ post) (length pre) s =
     (Inr (length pre + 4 * (length gs + 1)),
      precalculated ar (s\<lparr>m_points := m_points s @ map (point_of ar) gs\<rparr>))"
  using assms
proof (induction gs arbitrary: pre s)
  case Nil
  show ?case
    using readData_loop_terminator [of use_ld ar pre post s] by (simp add: stream_of_def)
next
  case (Cons g gs)
  obtain x y z d where g: "g = (x, y, z, d)" by (cases g) auto
  from Cons.prems g have ne: "(x, y, z, d) \<noteq> (0, 0, 0, 0)" and ok: "use_ld \<longrightarrow> 0 \<le> sint d"
    by auto
  have "readData_loop use_ld ar (pre @ stream_of (g # gs) @ post) (length pre) s =
        readData_loop use_ld ar (pre @ [x, y, z, d] @ (stream_of gs @ post)) (length pre) s"
    by (simp add: g stream_of_def)
  also have "\<dots> = readData_loop use_ld ar ((pre @ [x, y, z, d]) @ stream_of gs @ post)
       (length (pre @ [x, y, z, d])) (s\<lparr>m_points := m_points s @ [point_of ar (x, y, z, d)]\<rparr>)"
    using readData_loop_group [OF ne ok, of ar pre "stream_of gs @ post" s]
    by (simp add: Suc4_eq)
  also have "\<dots> = (Inr (length (pre @ [x, y, z, d]) + 4 * (length gs + 1)),
      precalculated ar ((s\<lparr>m_points := m_points s @ [point_of ar (x, y, z, d)]\<rparr>)
         \<lparr>m_points := m_points (s\<lparr>m_points := m_points s @ [point_of ar (x, y, z, d)]\<rparr>)
              @ map (point_of ar) gs\<rparr>))"
    using Cons.prems by (intro Cons.IH) auto
  finally show ?case by (simp add: g)
qed

subsection \<open>The search for the segment\<close>

text \<open>
  When the loop reaches counter \<open>ii\<close> the accumulated time is \<open>time_before ar s ii\<close>. The loop
  returns the blend at the first index whose test succeeds, and the last anchor when no
  test succeeds; this holds for every arithmetic.
\<close>

lemma time_before_Suc:
  "i < length (m_points s) \<Longrightarrow>
   time_before ar s (Suc i) = fadd ar (time_before ar s i) (getTimestamp (m_points s ! i))"
  by (simp add: time_before_def take_Suc_conv_app_nth)

lemma time_before_0: "time_before ar s 0 = to_float ar 0"
  by (simp add: time_before_def)

lemma resolvePosition_loop_Some:
  assumes "m_points s \<noteq> []"
  shows "\<exists>v. resolvePosition_loop ar s stamp ii current_time = Some v"
proof (induction "length (m_points s) - ii" arbitrary: ii current_time)
  case 0
  with assms show ?case
    by (subst resolvePosition_loop.simps) (simp add: seq_back_def)
next
  case (Suc k)
  then have lt: "ii < length (m_points s)" by simp
  from Suc.hyps(2) have "k = length (m_points s) - (ii + 1)" by simp
  from Suc.hyps(1) [OF this] splineInterpolate_Some [OF assms] lt
  show ?case
    by (subst resolvePosition_loop.simps) (simp add: Let_def)
qed

lemma resolvePosition_loop_hit:
  assumes "ii \<le> i" and "i < length (m_points s)"
    and "fgt ar (fadd ar (time_before ar s i) (getTimestamp (m_points s ! i))) stamp"
    and "\<forall>j. ii \<le> j \<and> j < i \<longrightarrow>
           \<not> fgt ar (fadd ar (time_before ar s j) (getTimestamp (m_points s ! j))) stamp"
  shows "resolvePosition_loop ar s stamp ii (time_before ar s ii) =
     (let interp = fdiv ar (fsub ar stamp (time_before ar s i)) (getTimestamp (m_points s ! i))
      in if m_mode s = bool_of_mode BEZIER then splineInterpolateBezier ar s i interp
         else splineInterpolateWeighted ar s i interp)"
  using assms(1,4)
proof (induction "i - ii" arbitrary: ii)
  case 0
  then have "ii = i" by simp
  with assms(2,3) show ?case
    by (subst resolvePosition_loop.simps) (simp add: Let_def)
next
  case (Suc k)
  from Suc.hyps(2) have lt: "ii < i" by simp
  with assms(2) have len: "ii < length (m_points s)" by simp
  from Suc.prems(2) lt
  have miss: "\<not> fgt ar (fadd ar (time_before ar s ii) (getTimestamp (m_points s ! ii))) stamp"
    by simp
  have "resolvePosition_loop ar s stamp ii (time_before ar s ii) =
        resolvePosition_loop ar s stamp (Suc ii) (time_before ar s (Suc ii))"
    using len miss
    by (subst resolvePosition_loop.simps) (simp add: Let_def time_before_Suc)
  also have "\<dots> =
     (let interp = fdiv ar (fsub ar stamp (time_before ar s i)) (getTimestamp (m_points s ! i))
      in if m_mode s = bool_of_mode BEZIER then splineInterpolateBezier ar s i interp
         else splineInterpolateWeighted ar s i interp)"
    using Suc.hyps(2) Suc.prems(2) lt by (intro Suc.hyps(1)) auto
  finally show ?case .
qed

lemma resolvePosition_loop_miss:
  assumes "\<forall>j. ii \<le> j \<and> j < length (m_points s) \<longrightarrow>
           \<not> fgt ar (fadd ar (time_before ar s j) (getTimestamp (m_points s ! j))) stamp"
  shows "resolvePosition_loop ar s stamp ii (time_before ar s ii) =
     map_option getPoint (seq_back (m_points s))"
  using assms
proof (induction "length (m_points s) - ii" arbitrary: ii)
  case 0
  then show ?case
    by (subst resolvePosition_loop.simps) simp
next
  case (Suc k)
  from Suc.hyps(2) have len: "ii < length (m_points s)" by simp
  with Suc.prems
  have miss: "\<not> fgt ar (fadd ar (time_before ar s ii) (getTimestamp (m_points s ! ii))) stamp"
    by simp
  have "resolvePosition_loop ar s stamp ii (time_before ar s ii) =
        resolvePosition_loop ar s stamp (Suc ii) (time_before ar s (Suc ii))"
    using len miss
    by (subst resolvePosition_loop.simps) (simp add: Let_def time_before_Suc)
  also have "\<dots> = map_option getPoint (seq_back (m_points s))"
    using Suc.hyps(2) Suc.prems by (intro Suc.hyps(1)) auto
  finally show ?case .
qed

lemma resolvePosition_selects:
  assumes "i < length (m_points s)"
    and "fgt ar (fadd ar (time_before ar s i) (getTimestamp (m_points s ! i))) stamp"
    and "\<forall>j < i. \<not> fgt ar (fadd ar (time_before ar s j) (getTimestamp (m_points s ! j))) stamp"
  shows "\<exists>v. (let interp = fdiv ar (fsub ar stamp (time_before ar s i)) (getTimestamp (m_points s ! i))
            in if m_mode s = bool_of_mode BEZIER then splineInterpolateBezier ar s i interp
               else splineInterpolateWeighted ar s i interp) = Some v
         \<and> resolvePosition use_ld ar s stamp = Inr v"
proof -
  from assms(1) have ne: "m_points s \<noteq> []" by auto
  have loop: "resolvePosition_loop ar s stamp 0 (to_float ar 0) =
     (let interp = fdiv ar (fsub ar stamp (time_before ar s i)) (getTimestamp (m_points s ! i))
      in if m_mode s = bool_of_mode BEZIER then splineInterpolateBezier ar s i interp
         else splineInterpolateWeighted ar s i interp)"
    using resolvePosition_loop_hit [of 0 i s ar stamp] assms by (simp add: time_before_0)
  from resolvePosition_loop_Some [OF ne, of ar stamp 0 "to_float ar 0"]
  obtain v where v: "resolvePosition_loop ar s stamp 0 (to_float ar 0) = Some v" by blast
  have "resolvePosition use_ld ar s stamp = Inr v"
    using ne by (simp add: resolvePosition_def v)
  moreover from v have "(let interp = fdiv ar (fsub ar stamp (time_before ar s i)) (getTimestamp (m_points s ! i))
      in if m_mode s = bool_of_mode BEZIER then splineInterpolateBezier ar s i interp
         else splineInterpolateWeighted ar s i interp) = Some v"
    unfolding loop .
  ultimately show ?thesis by blast
qed

lemma first_segment_exists:
  assumes "m_points s \<noteq> []"
    and "fgt ar (time_before ar s (length (m_points s))) stamp"
  shows "\<exists>i < length (m_points s).
           fgt ar (fadd ar (time_before ar s i) (getTimestamp (m_points s ! i))) stamp
         \<and> (\<forall>j < i. \<not> fgt ar (fadd ar (time_before ar s j) (getTimestamp (m_points s ! j))) stamp)"
proof -
  let ?P = "\<lambda>j. fgt ar (fadd ar (time_before ar s j) (getTimestamp (m_points s ! j))) stamp"
  let ?n = "length (m_points s)"
  from assms(1) obtain m where m: "?n = Suc m" by (cases "m_points s") auto
  then have "time_before ar s ?n = fadd ar (time_before ar s m) (getTimestamp (m_points s ! m))"
    using time_before_Suc [of m s ar] by simp
  with assms(2) have last: "?P m" by simp
  let ?i = "LEAST j. ?P j"
  have 1: "?P ?i" using last by (rule LeastI)
  have "?i \<le> m" using last by (rule Least_le)
  with m have 2: "?i < ?n" by simp
  have 3: "\<forall>j < ?i. \<not> ?P j" using not_less_Least by blast
  from 1 2 3 show ?thesis by blast
qed

lemma resolvePosition_first:
  assumes "m_points s \<noteq> []"
    and "fgt ar (fadd ar (to_float ar 0) (getTimestamp (m_points s ! 0))) stamp"
  shows "\<exists>v. (let localT = fdiv ar (fsub ar stamp (to_float ar 0)) (getTimestamp (m_points s ! 0))
            in if m_mode s = bool_of_mode BEZIER then splineInterpolateBezier ar s 0 localT
               else splineInterpolateWeighted ar s 0 localT) = Some v
         \<and> resolvePosition use_ld ar s stamp = Inr v"
proof -
  from assms(1) have "0 < length (m_points s)" by simp
  from resolvePosition_selects [OF this, of ar stamp use_ld] assms(2)
  show ?thesis by (simp add: time_before_0)
qed

subsection \<open>Cumulative durations of the sample curves\<close>

text \<open>The running totals of the sample curves, evaluated.\<close>

lemma time_before_sample:
  "time_before exact (sample mode) (Suc 0) = 10" "time_before exact (sample mode) 2 = 20"
  by (simp_all add: time_before_def sample_eq exact_def)

lemma time_before_plateau:
  "time_before exact plateau (Suc 0) = 10" "time_before exact plateau 3 = 20"
  by (simp_all add: time_before_def plateau_eq exact_def eval_nat_numeral)

lemma running_totals_sample:
  "\<forall>j < length (m_points (sample mode)).
     fadd exact (time_before exact (sample mode) j) (getTimestamp (m_points (sample mode) ! j))
       \<le> 20"
  by (simp add: sample_eq time_before_def exact_def All_less_Suc)

lemma time_before_detour:
  "time_before exact detour 2 = 5" "time_before exact detour 3 = 8"
  by (simp_all add: time_before_def detour_eq exact_def eval_nat_numeral)

section \<open>Properties\<close>

text \<open>
  C1. On a non-empty curve, when no running total exceeds the timestamp,
  \<^verbatim>\<open>resolvePosition\<close> returns the anchor of the last point. The running totals are the
  values \<^verbatim>\<open>current_time + current_segment\<close> of the loop, accumulated in the arithmetic of
  the code over all points in order, the last point's included; that none exceeds the
  timestamp says that every test \<^verbatim>\<open>(current_time + current_segment) > stamp\<close> fails. This
  holds for every arithmetic.
\<close>

theorem resolvePosition_terminal_clamp:
  assumes "m_points s \<noteq> []"
    and "\<forall>j < length (m_points s).
           \<not> fgt ar (fadd ar (time_before ar s j) (getTimestamp (m_points s ! j))) stamp"
  shows "resolvePosition use_ld ar s stamp = Inr (getPoint (last (m_points s)))"
  using resolvePosition_loop_miss [of 0 s ar stamp] assms
  by (simp add: resolvePosition_def time_before_0 seq_back_def)

theorem resolvePosition_terminal_clamp_witness:
  "resolvePosition False exact (sample WEIGHTED) 25 = Inr (100, 0, 0)
   \<and> resolvePosition False exact (sample BEZIER) 20 = Inr (100, 0, 0)"
proof -
  have ne: "m_points (sample mode) \<noteq> []" for mode
    by (simp add: sample_eq)
  have t25: "\<forall>j < length (m_points (sample WEIGHTED)).
      \<not> fgt exact (fadd exact (time_before exact (sample WEIGHTED) j)
            (getTimestamp (m_points (sample WEIGHTED) ! j))) 25"
    using running_totals_sample [of WEIGHTED] by (auto simp: exact_simps)
  have t20: "\<forall>j < length (m_points (sample BEZIER)).
      \<not> fgt exact (fadd exact (time_before exact (sample BEZIER) j)
            (getTimestamp (m_points (sample BEZIER) ! j))) 20"
    using running_totals_sample [of BEZIER] by (auto simp: exact_simps)
  from resolvePosition_terminal_clamp [OF ne t25, where use_ld = False]
    resolvePosition_terminal_clamp [OF ne t20, where use_ld = False]
  show ?thesis by (simp add: sample_eq)
qed

text \<open>
  The specification leaves the last point's duration out of \<open>D\<close>. The loop
  tests the last point like every other: on the decoded two-point curve \<open>D\<close> would be
  10, and at timestamp 15 the second point's test \<open>10 + 10 > 15\<close> succeeds, so the result
  is the weighted blend at base index 1 and parameter 1/2, not the last anchor. On the
  curve with durations 10, -5 and 3 the timestamp 9 is beyond both sums, and the first
  test \<open>0 + 10 > 9\<close> succeeds.
\<close>

theorem resolvePosition_terminal_clamp_counterexample:
  "sum_list (map getTimestamp (butlast (m_points (sample WEIGHTED)))) = 10
   \<and> resolvePosition False exact (sample WEIGHTED) 15 = Inr (250 / 3, 0, 0)
   \<and> resolvePosition True exact (sample WEIGHTED) 15 = Inr (250 / 3, 0, 0)
   \<and> getPoint (last (m_points (sample WEIGHTED))) = (100, 0, 0)
   \<and> sum_list (map getTimestamp (butlast (m_points detour))) = 5
   \<and> sum_list (map getTimestamp (m_points detour)) = 8
   \<and> resolvePosition False exact detour 9 = Inr (280 / 3, 0, 0)
   \<and> getPoint (last (m_points detour)) = (200, 0, 0)"
  by (simp add: sample_eq detour_eq resolve_defs)

text \<open>
  C2. Let the stream hold, from the input pointer on, \<open>n\<close> groups none of which is the
  all-zero group, followed by an all-zero group (and anything before and after). In a
  build without \<^verbatim>\<open>USE_LD\<close>, or when no group has a negative fourth value, \<^verbatim>\<open>readData\<close>
  returns the pointer advanced by \<open>4 * (n + 1)\<close> and leaves a curve of the same mode
  with \<open>n\<close> more points, whose anchors and durations are the old ones followed by
  those of the \<open>n\<close> groups in stream order: anchor \<open>(float x, float y, float z)\<close>,
  duration \<open>float d\<close>.
\<close>

theorem readData_appends:
  assumes "\<forall>g \<in> set gs. g \<noteq> (0, 0, 0, 0)"
    and "use_ld \<longrightarrow> (\<forall>(x, y, z, d) \<in> set gs. 0 \<le> sint d)"
  shows "\<exists>s'. readData use_ld ar (pre @ stream_of gs @ post) (length pre) s =
             (Inr (length pre + 4 * (length gs + 1)), s')
        \<and> m_mode s' = m_mode s
        \<and> length (m_points s') = length (m_points s) + length gs
        \<and> map getPoint (m_points s') =
            map getPoint (m_points s) @
            map (\<lambda>(x, y, z, d).
                  vec3 ar (to_float ar (sint x)) (to_float ar (sint y)) (to_float ar (sint z))) gs
        \<and> map getTimestamp (m_points s') =
            map getTimestamp (m_points s) @ map (\<lambda>(x, y, z, d). to_float ar (sint d)) gs"
proof -
  have "map getPoint (map (point_of ar) gs) =
      map (\<lambda>(x, y, z, d).
            vec3 ar (to_float ar (sint x)) (to_float ar (sint y)) (to_float ar (sint z))) gs"
    by (auto simp: SplinePoint_new_def)
  moreover have "map getTimestamp (map (point_of ar) gs) =
      map (\<lambda>(x, y, z, d). to_float ar (sint d)) gs"
    by (auto simp: SplinePoint_new_def)
  ultimately show ?thesis
    unfolding readData_def readData_loop_groups [OF assms]
    by (simp add: precalculated_fields)
qed

theorem readData_appends_witness:
  "readData True exact sample_stream 0 (Spline_new WEIGHTED) = (Inr 12, sample WEIGHTED)
   \<and> map getPoint (m_points (sample WEIGHTED)) = [(0, 0, 0), (100, 0, 0)]
   \<and> map getTimestamp (m_points (sample WEIGHTED)) = [10, 10]"
proof -
  have hyp1: "\<forall>g \<in> set [(0, 0, 0, 10), (100, 0, 0, 10 :: int16_t)]. g \<noteq> (0, 0, 0, 0 :: int16_t)"
    by simp
  have hyp2: "True \<longrightarrow> (\<forall>(x, y, z, d) \<in> set [(0, 0, 0, 10), (100, 0, 0, 10 :: int16_t)].
      0 \<le> sint (d :: int16_t))"
    by simp
  have str: "[] @ stream_of [(0, 0, 0, 10), (100, 0, 0, 10)] @ [] = sample_stream"
    by (simp add: stream_of_def sample_stream_def)
  from readData_appends [OF hyp1 hyp2, of exact "[]" "[]" "Spline_new WEIGHTED"]
  obtain s' where "readData True exact sample_stream 0 (Spline_new WEIGHTED) = (Inr 12, s')"
    unfolding str by auto
  moreover have "readData True exact sample_stream 0 (Spline_new WEIGHTED) = (Inr 12, sample WEIGHTED)"
    by (simp add: sample_eq eval_defs)
  ultimately show ?thesis by (auto simp: sample_eq)
qed

text \<open>
  For every such stream, as the specification has it, this fails in a build with
  \<^verbatim>\<open>USE_LD\<close>:
  the group \<open>(1, 2, 3, -1)\<close> is not the terminator, and decoding it throws with no
  point appended and no pointer returned.
\<close>

theorem readData_negative_duration_counterexample:
  "(1, 2, 3, - 1) \<noteq> (0, 0, 0, 0 :: int16_t)
   \<and> readData True exact (stream_of [(1, 2, 3, - 1)]) 0 (Spline_new WEIGHTED) =
       (Inl (InvalidTimestamp (- 1)), Spline_new WEIGHTED)"
  by (simp add: stream_of_def eval_defs)

text \<open>
  C3. For every arithmetic. First part: on a non-empty curve, for a timestamp below
  the running total of all durations (\<^verbatim>\<open>current_time\<close> after the last point, as the code
  accumulates it), there is a first index \<open>i\<close> whose test
  \<^verbatim>\<open>(current_time + current_segment) > stamp\<close> succeeds, the cumulative duration before
  \<open>i\<close> plus the duration of point \<open>i\<close> being greater than the timestamp, and
  \<^verbatim>\<open>resolvePosition\<close> returns the Bezier blend when the mode is \<^verbatim>\<open>BEZIER\<close> and the
  weighted blend otherwise, at base index \<open>i\<close> and parameter
  \<open>(stamp - cumulative duration before i) / duration of i\<close>.
  Second part: a timestamp equal to the cumulative duration before segment \<open>k\<close> selects
  segment \<open>k\<close> when no earlier running total exceeds it and the running total of segment
  \<open>k\<close> does; the parameter is \<open>(stamp - stamp) / duration of k\<close>, and where that
  difference is \<^verbatim>\<open>0.0f\<close> and \<^verbatim>\<open>0.0f\<close> divided by the duration is \<^verbatim>\<open>0.0f\<close>, the result is the
  blend at base index \<open>k\<close> and parameter \<^verbatim>\<open>0.0f\<close>.
\<close>

theorem resolvePosition_segment:
  "(m_points s \<noteq> [] \<and> fgt ar (time_before ar s (length (m_points s))) stamp \<longrightarrow>
      (\<exists>i v. i < length (m_points s)
         \<and> fgt ar (fadd ar (time_before ar s i) (getTimestamp (m_points s ! i))) stamp
         \<and> (\<forall>j < i. \<not> fgt ar (fadd ar (time_before ar s j) (getTimestamp (m_points s ! j))) stamp)
         \<and> (let localT = fdiv ar (fsub ar stamp (time_before ar s i)) (getTimestamp (m_points s ! i))
             in if m_mode s = bool_of_mode BEZIER then splineInterpolateBezier ar s i localT
                else splineInterpolateWeighted ar s i localT) = Some v
         \<and> resolvePosition use_ld ar s stamp = Inr v))
   \<and> (k < length (m_points s)
        \<and> (\<forall>j < k. \<not> fgt ar (fadd ar (time_before ar s j) (getTimestamp (m_points s ! j)))
                         (time_before ar s k))
        \<and> fgt ar (fadd ar (time_before ar s k) (getTimestamp (m_points s ! k))) (time_before ar s k)
        \<and> fsub ar (time_before ar s k) (time_before ar s k) = to_float ar 0
        \<and> fdiv ar (to_float ar 0) (getTimestamp (m_points s ! k)) = to_float ar 0 \<longrightarrow>
      (\<exists>v. (if m_mode s = bool_of_mode BEZIER then splineInterpolateBezier ar s k (to_float ar 0)
             else splineInterpolateWeighted ar s k (to_float ar 0)) = Some v
         \<and> resolvePosition use_ld ar s (time_before ar s k) = Inr v))"
proof (intro conjI impI)
  assume "m_points s \<noteq> [] \<and> fgt ar (time_before ar s (length (m_points s))) stamp"
  then obtain i where i: "i < length (m_points s)"
    and hit: "fgt ar (fadd ar (time_before ar s i) (getTimestamp (m_points s ! i))) stamp"
    and miss: "\<forall>j < i. \<not> fgt ar (fadd ar (time_before ar s j) (getTimestamp (m_points s ! j))) stamp"
    using first_segment_exists [of s ar stamp] by blast
  from resolvePosition_selects [OF i hit miss, of use_ld] i hit miss
  show "\<exists>i v. i < length (m_points s)
         \<and> fgt ar (fadd ar (time_before ar s i) (getTimestamp (m_points s ! i))) stamp
         \<and> (\<forall>j < i. \<not> fgt ar (fadd ar (time_before ar s j) (getTimestamp (m_points s ! j))) stamp)
         \<and> (let localT = fdiv ar (fsub ar stamp (time_before ar s i)) (getTimestamp (m_points s ! i))
             in if m_mode s = bool_of_mode BEZIER then splineInterpolateBezier ar s i localT
                else splineInterpolateWeighted ar s i localT) = Some v
         \<and> resolvePosition use_ld ar s stamp = Inr v"
    by blast
next
  assume a: "k < length (m_points s)
        \<and> (\<forall>j < k. \<not> fgt ar (fadd ar (time_before ar s j) (getTimestamp (m_points s ! j)))
                         (time_before ar s k))
        \<and> fgt ar (fadd ar (time_before ar s k) (getTimestamp (m_points s ! k))) (time_before ar s k)
        \<and> fsub ar (time_before ar s k) (time_before ar s k) = to_float ar 0
        \<and> fdiv ar (to_float ar 0) (getTimestamp (m_points s ! k)) = to_float ar 0"
  then have k: "k < length (m_points s)"
    and miss: "\<forall>j < k. \<not> fgt ar (fadd ar (time_before ar s j) (getTimestamp (m_points s ! j)))
                         (time_before ar s k)"
    and hit: "fgt ar (fadd ar (time_before ar s k) (getTimestamp (m_points s ! k)))
                (time_before ar s k)"
    and zero: "fdiv ar (fsub ar (time_before ar s k) (time_before ar s k))
                (getTimestamp (m_points s ! k)) = to_float ar 0"
    by simp_all
  from resolvePosition_selects [OF k hit miss, of use_ld]
  show "\<exists>v. (if m_mode s = bool_of_mode BEZIER then splineInterpolateBezier ar s k (to_float ar 0)
             else splineInterpolateWeighted ar s k (to_float ar 0)) = Some v
         \<and> resolvePosition use_ld ar s (time_before ar s k) = Inr v"
    by (simp add: zero Let_def)
qed

theorem resolvePosition_segment_witness:
  "resolvePosition False exact (sample WEIGHTED) 5 = Inr (50, 0, 0)
   \<and> splineInterpolateWeighted exact (sample WEIGHTED) 0 (1 / 2) = Some (50, 0, 0)
   \<and> resolvePosition False exact (sample WEIGHTED) 10 = Inr (200 / 3, 0, 0)
   \<and> splineInterpolateWeighted exact (sample WEIGHTED) 1 0 = Some (200 / 3, 0, 0)"
proof -
  have ne: "m_points (sample WEIGHTED) \<noteq> []"
    and len: "length (m_points (sample WEIGHTED)) = 2"
    and d1: "getTimestamp (m_points (sample WEIGHTED) ! Suc 0) = 10"
    and d0: "getTimestamp (m_points (sample WEIGHTED) ! 0) = 10"
    by (simp_all add: sample_eq)
  have h1: "m_points (sample WEIGHTED) \<noteq> []
      \<and> fgt exact (time_before exact (sample WEIGHTED) (length (m_points (sample WEIGHTED)))) 5"
    using ne by (simp add: len time_before_sample exact_simps)
  have h2: "1 < length (m_points (sample WEIGHTED))
      \<and> (\<forall>j < 1. \<not> fgt exact (fadd exact (time_before exact (sample WEIGHTED) j)
                (getTimestamp (m_points (sample WEIGHTED) ! j)))
             (time_before exact (sample WEIGHTED) 1))
      \<and> fgt exact (fadd exact (time_before exact (sample WEIGHTED) 1)
            (getTimestamp (m_points (sample WEIGHTED) ! 1))) (time_before exact (sample WEIGHTED) 1)
      \<and> fsub exact (time_before exact (sample WEIGHTED) 1) (time_before exact (sample WEIGHTED) 1)
          = to_float exact 0
      \<and> fdiv exact (to_float exact 0) (getTimestamp (m_points (sample WEIGHTED) ! 1))
          = to_float exact 0"
    by (simp add: len d0 d1 time_before_sample time_before_0 exact_simps)
  from resolvePosition_segment [where s = "sample WEIGHTED" and ar = exact and stamp = 5
      and k = 1 and use_ld = False] h1 h2
  have "\<exists>v. resolvePosition False exact (sample WEIGHTED) 5 = Inr v"
    and "\<exists>v. resolvePosition False exact (sample WEIGHTED) (time_before exact (sample WEIGHTED) 1) = Inr v"
    by blast+
  then show ?thesis
    by (simp add: time_before_sample) (simp add: sample_eq resolve_defs)
qed

text \<open>
  The specification has the second part for every curve and every boundary. A build
  without \<^verbatim>\<open>USE_LD\<close> decodes negative durations: on the curve with durations 10, -5 and
  3 the timestamp 5 is the boundary at which the third segment starts and is below the
  sum 8 of all durations, and the first test \<open>0 + 10 > 5\<close> succeeds: the result is the
  blend at base index 0 and parameter 1/2, which is the blend at parameter 0 of no
  segment. Either build decodes a zero duration: on the curve with durations 10, 0 and
  10 the timestamp 10 is the boundary at which the second segment starts, the test of
  that segment \<open>10 + 0 > 10\<close> fails, and the result is the blend at base index 2, not 1.
\<close>

theorem resolvePosition_boundary_counterexample:
  "time_before exact detour 2 = 5
   \<and> time_before exact detour 3 = 8
   \<and> resolvePosition False exact detour 5 = Inr (200 / 3, 0, 0)
   \<and> splineInterpolateWeighted exact detour 0 (1 / 2) = Some (200 / 3, 0, 0)
   \<and> splineInterpolateWeighted exact detour 0 0 = Some (100 / 3, 0, 0)
   \<and> splineInterpolateWeighted exact detour 1 0 = Some (100, 0, 0)
   \<and> splineInterpolateWeighted exact detour 2 0 = Some (500 / 3, 0, 0)
   \<and> time_before exact plateau (Suc 0) = 10
   \<and> time_before exact plateau 3 = 20
   \<and> resolvePosition False exact plateau 10 = Inr (500 / 3, 0, 0)
   \<and> resolvePosition True exact plateau 10 = Inr (500 / 3, 0, 0)
   \<and> splineInterpolateWeighted exact plateau 1 0 = Some (100, 0, 0)
   \<and> splineInterpolateWeighted exact plateau 2 0 = Some (500 / 3, 0, 0)"
  by (simp add: time_before_detour time_before_plateau)
     (simp add: detour_eq plateau_eq resolve_defs)

text \<open>
  C4. Let \<open>idx\<close> be the index of a point of the curve, and let the library's \<open>mix\<close>
  return its first vector at \<^verbatim>\<open>0.0f\<close> and its second at \<^verbatim>\<open>1.0f\<close>. Then the Bezier blend at
  \<^verbatim>\<open>0.0f\<close> is the anchor of point \<open>idx\<close>, and at \<^verbatim>\<open>1.0f\<close> it is the anchor of the clamped
  point at \<open>idx + 1\<close>, whatever the tangent helpers are.
\<close>

theorem splineInterpolateBezier_endpoints:
  assumes "idx < length (m_points s)"
    and "\<forall>a b. mix ar a b (to_float ar 0) = a"
    and "\<forall>a b. mix ar a b (to_float ar 1) = b"
  shows "splineInterpolateBezier ar s idx (to_float ar 0) = Some (getPoint (m_points s ! idx))
       \<and> splineInterpolateBezier ar s idx (to_float ar 1) = Some (clampedAnchor s (int idx + 1))"
proof -
  from assms(1) have ne: "m_points s \<noteq> []" by auto
  from assms(1) have "clampedIndex (length (m_points s)) (int idx) = idx"
    by (simp add: clampedIndex_inside)
  with assms(2,3) show ?thesis
    by (simp add: splineInterpolateBezier_closed [OF ne] clampedAnchor_def Let_def)
qed

theorem splineInterpolateBezier_endpoints_witness:
  "splineInterpolateBezier exact (sample BEZIER) 0 0 = Some (0, 0, 0)
   \<and> splineInterpolateBezier exact (sample BEZIER) 0 1 = Some (100, 0, 0)
   \<and> splineInterpolateBezier exact (sample BEZIER) 1 0 = Some (100, 0, 0)
   \<and> splineInterpolateBezier exact (sample BEZIER) 1 1 = Some (100, 0, 0)"
proof -
  have m0: "\<forall>a b. mix exact a b (to_float exact 0) = a"
    by (simp add: exact_def mix_exact_0)
  have m1: "\<forall>a b. mix exact a b (to_float exact 1) = b"
    by (simp add: exact_def mix_exact_1)
  have i0: "0 < length (m_points (sample BEZIER))" and i1: "1 < length (m_points (sample BEZIER))"
    by (simp_all add: sample_eq)
  from splineInterpolateBezier_endpoints [OF i0 m0 m1]
    splineInterpolateBezier_endpoints [OF i1 m0 m1]
  show ?thesis
    by (simp add: sample_eq clampedAnchor_def clampedIndex_def exact_def)
qed

text \<open>
  C5. Let \<open>sidx\<close> be the base index converted to \<^verbatim>\<open>int\<close> (the index itself below \<open>2^31\<close>,
  the index minus \<open>2^32\<close> from there on), with \<open>sidx - 1\<close> and \<open>sidx + 2\<close> within the
  range of \<^verbatim>\<open>int\<close>. On a non-empty curve the weighted blend at that base index and
  parameter \<open>interp\<close> is the sum of the three mixes \<open>mix A B\<close>, \<open>mix B C\<close>, \<open>mix C D\<close> at
  \<open>interp\<close> times \<^verbatim>\<open>1.0f / 3.0f\<close>, with \<open>A\<close>, \<open>B\<close>, \<open>C\<close>, \<open>D\<close> the clamped anchors at
  \<open>sidx - 1\<close>, \<open>sidx\<close>, \<open>sidx + 1\<close>, \<open>sidx + 2\<close>. Where \<open>mix\<close> returns its first vector at
  \<^verbatim>\<open>0.0f\<close>, the blend at \<^verbatim>\<open>0.0f\<close> is \<open>(A + B + C)\<close> times \<^verbatim>\<open>1.0f / 3.0f\<close>.
\<close>

theorem splineInterpolateWeighted_average:
  assumes "m_points s \<noteq> []"
    and "sidx = sint (word_of_nat idx :: 32 word)"
    and "- 2147483648 < sidx" and "sidx + 2 \<le> 2147483647"
  shows "splineInterpolateWeighted ar s idx interp =
     Some (vscale ar
            (vadd ar
              (vadd ar (mix ar (clampedAnchor s (sidx - 1)) (clampedAnchor s sidx) interp)
                       (mix ar (clampedAnchor s sidx) (clampedAnchor s (sidx + 1)) interp))
              (mix ar (clampedAnchor s (sidx + 1)) (clampedAnchor s (sidx + 2)) interp))
            (fdiv ar (to_float ar 1) (to_float ar 3)))
     \<and> ((\<forall>a b. mix ar a b (to_float ar 0) = a) \<longrightarrow>
         splineInterpolateWeighted ar s idx (to_float ar 0) =
           Some (vscale ar
                  (vadd ar (vadd ar (clampedAnchor s (sidx - 1)) (clampedAnchor s sidx))
                           (clampedAnchor s (sidx + 1)))
                  (fdiv ar (to_float ar 1) (to_float ar 3))))
     \<and> (idx < 2147483648 \<longrightarrow> sidx = int idx)
     \<and> (2147483648 \<le> idx \<and> idx < 4294967296 \<longrightarrow> sidx = int idx - 4294967296)"
  using assms(1,2) sint_unsigned_small [of idx] sint_unsigned_big [of idx]
  by (simp add: splineInterpolateWeighted_def getPointClamped_clampedIndex clampedAnchor_def Let_def)

theorem splineInterpolateWeighted_average_witness:
  "splineInterpolateWeighted exact (sample WEIGHTED) 0 (1 / 2) = Some (50, 0, 0)
   \<and> splineInterpolateWeighted exact (sample WEIGHTED) 1 0 = Some (200 / 3, 0, 0)
   \<and> splineInterpolateWeighted exact (sample WEIGHTED) 4294967295 (3 / 4) = Some (25, 0, 0)"
proof -
  have ne: "m_points (sample WEIGHTED) \<noteq> []"
    by (simp add: sample_eq)
  have m0: "\<forall>a b. mix exact a b (to_float exact 0) = a"
    by (simp add: exact_def mix_exact_0)
  have c0: "(0 :: int) = sint (word_of_nat 0 :: 32 word)"
    and c1: "(1 :: int) = sint (word_of_nat 1 :: 32 word)"
    and c2: "(- 1 :: int) = sint (word_of_nat 4294967295 :: 32 word)"
    by simp_all
  from splineInterpolateWeighted_average [OF ne c0, of exact "1 / 2"]
    splineInterpolateWeighted_average [OF ne c1, of exact 0]
    splineInterpolateWeighted_average [OF ne c2, of exact "3 / 4"] m0
  show ?thesis
    by (simp add: sample_eq clampedAnchor_def clampedIndex_def exact_def mix_exact_def)
qed

text \<open>
  The specification has \<open>(A + 2B + C) / 3\<close> at parameter 0. On the decoded two-point
  curve at base index 1, \<open>A = (0, 0, 0)\<close> and \<open>B = C = (100, 0, 0)\<close>: the blend is
  \<open>(200/3, 0, 0)\<close>, and \<open>(A + 2B + C) / 3\<close> is \<open>(100, 0, 0)\<close>. It also has the anchors at
  \<open>i - 1\<close> to \<open>i + 2\<close> for every base index \<open>i\<close>: at the base index 4294967295 the
  conversion gives -1, the code reads the points at -2, -1, 0 and 1, and the blend at
  parameter 3/4 is \<open>(25, 0, 0)\<close>, where the anchors at 4294967294 to 4294967297, all the
  last point's, give \<open>(100, 0, 0)\<close>.
\<close>

theorem splineInterpolateWeighted_start_counterexample:
  "splineInterpolateWeighted exact (sample WEIGHTED) 1 0 = Some (200 / 3, 0, 0)
   \<and> vscale exact
        (vadd exact
          (vadd exact (clampedAnchor (sample WEIGHTED) 0)
             (vscale exact (clampedAnchor (sample WEIGHTED) 1) 2))
          (clampedAnchor (sample WEIGHTED) 2))
        (1 / 3) = (100, 0, 0)
   \<and> splineInterpolateWeighted exact (sample WEIGHTED) 1 0 \<noteq>
       Some (vscale exact
        (vadd exact
          (vadd exact (clampedAnchor (sample WEIGHTED) 0)
             (vscale exact (clampedAnchor (sample WEIGHTED) 1) 2))
          (clampedAnchor (sample WEIGHTED) 2))
        (1 / 3))
   \<and> splineInterpolateWeighted exact (sample WEIGHTED) 4294967295 (3 / 4) = Some (25, 0, 0)
   \<and> vscale exact
        (vadd exact
          (vadd exact
            (mix exact (clampedAnchor (sample WEIGHTED) 4294967294)
               (clampedAnchor (sample WEIGHTED) 4294967295) (3 / 4))
            (mix exact (clampedAnchor (sample WEIGHTED) 4294967295)
               (clampedAnchor (sample WEIGHTED) 4294967296) (3 / 4)))
          (mix exact (clampedAnchor (sample WEIGHTED) 4294967296)
             (clampedAnchor (sample WEIGHTED) 4294967297) (3 / 4)))
        (1 / 3) = (100, 0, 0)"
  by (simp add: sample_eq splineInterpolateWeighted_def getPointClamped_def seq_back_def
      seq_front_def clampedAnchor_def clampedIndex_def exact_def mix_exact_def Let_def)

text \<open>
  C6. The tangent pass succeeds on every curve and leaves the mode and the number of
  points as they were; every point \<open>i\<close> comes out as it went in but for its two tangent
  helpers, which are \<open>prevTangentAnchor ar s i\<close> and \<open>nextTangentAnchor ar s i\<close>: the
  spec's \<^verbatim>\<open>normalize(prev - next) * sqrt(length(prev - curr)) + curr\<close> and
  \<^verbatim>\<open>normalize(next - prev) * sqrt(length(next - curr)) + curr\<close> over the clamped
  neighbour anchors of the curve before the pass. The anchor and the duration of no
  point change.
\<close>

theorem precalculate_tangents:
  "\<exists>s'. precalculate ar s = Some s'
        \<and> m_mode s' = m_mode s
        \<and> length (m_points s') = length (m_points s)
        \<and> (\<forall>i < length (m_points s).
              m_points s' ! i =
                (m_points s ! i)\<lparr>getPrev := prevTangentAnchor ar s i,
                                  getNext := nextTangentAnchor ar s i\<rparr>)"
  by (simp add: precalculate_closed precalculated_def)

theorem precalculate_tangents_witness:
  "precalculate exact (sample_raw BEZIER) =
     Some \<lparr>m_points =
        [\<lparr>getPoint = (0, 0, 0), getTimestamp = 10, getPrev = (0, 0, 0), getNext = (10, 0, 0)\<rparr>,
         \<lparr>getPoint = (100, 0, 0), getTimestamp = 10, getPrev = (90, 0, 0), getNext = (100, 0, 0)\<rparr>],
      m_mode = True\<rparr>"
proof -
  from precalculate_tangents [of exact "sample_raw BEZIER"]
  obtain s' where s': "precalculate exact (sample_raw BEZIER) = Some s'"
    and mode: "m_mode s' = m_mode (sample_raw BEZIER)"
    and len: "length (m_points s') = length (m_points (sample_raw BEZIER))"
    and pts: "\<forall>i < length (m_points (sample_raw BEZIER)).
              m_points s' ! i =
                (m_points (sample_raw BEZIER) ! i)
                  \<lparr>getPrev := prevTangentAnchor exact (sample_raw BEZIER) i,
                   getNext := nextTangentAnchor exact (sample_raw BEZIER) i\<rparr>"
    by blast
  have p0: "m_points s' ! 0 =
      \<lparr>getPoint = (0, 0, 0), getTimestamp = 10, getPrev = (0, 0, 0), getNext = (10, 0, 0)\<rparr>"
    using pts [rule_format, of 0]
    by (simp add: sample_raw_eq prevTangentAnchor_def nextTangentAnchor_def clampedAnchor_def
        clampedIndex_def exact_def normalize_exact_def)
  have p1: "m_points s' ! 1 =
      \<lparr>getPoint = (100, 0, 0), getTimestamp = 10, getPrev = (90, 0, 0), getNext = (100, 0, 0)\<rparr>"
    using pts [rule_format, of 1]
    by (simp add: sample_raw_eq prevTangentAnchor_def nextTangentAnchor_def clampedAnchor_def
        clampedIndex_def exact_def normalize_exact_def)
  from len have "length (m_points s') = 2" by (simp add: sample_raw_eq)
  then have "m_points s' = [m_points s' ! 0, m_points s' ! 1]"
    by (cases "m_points s'"; cases "tl (m_points s')") auto
  with p0 p1 mode have "s' = \<lparr>m_points =
        [\<lparr>getPoint = (0, 0, 0), getTimestamp = 10, getPrev = (0, 0, 0), getNext = (10, 0, 0)\<rparr>,
         \<lparr>getPoint = (100, 0, 0), getTimestamp = 10, getPrev = (90, 0, 0), getNext = (100, 0, 0)\<rparr>],
      m_mode = True\<rparr>"
    by (cases s') (simp add: sample_raw_eq)
  with s' show ?thesis by simp
qed




text \<open>
  C8. In a build with \<^verbatim>\<open>USE_LD\<close>, \<^verbatim>\<open>addPoint\<close> on a group whose fourth value is
  negative throws and leaves the curve as it was, and so does \<^verbatim>\<open>readData\<close> when the group
  at its pointer is such a group (and not the terminator): the error is raised before the
  point is appended. In a build without \<^verbatim>\<open>USE_LD\<close> there is no check: every group is
  appended, whatever its fourth value.
\<close>

theorem addPoint_wrapper_validation:
  "(0 > sint op4 \<longrightarrow>
      addPoint_wrapper True ar op1 op2 op3 op4 s = (Inl (InvalidTimestamp (sint op4)), s))
   \<and> (0 > sint (mem ! (iter + 3)) \<and> iter + 4 \<le> length mem \<and> \<not> is_segment_end mem iter \<longrightarrow>
      readData True ar mem iter s = (Inl (InvalidTimestamp (sint (mem ! (iter + 3)))), s))
   \<and> addPoint_wrapper False ar op1 op2 op3 op4 s =
        (Inr (), s\<lparr>m_points := m_points s @ [point_of ar (op1, op2, op3, op4)]\<rparr>)"
  by (auto simp: addPoint_wrapper_def addPoint_def readData_def readData_loop.simps [of True])

theorem addPoint_wrapper_validation_witness:
  "addPoint_wrapper True exact 1 2 3 (- 1) (sample WEIGHTED) =
     (Inl (InvalidTimestamp (- 1)), sample WEIGHTED)
   \<and> readData True exact [1, 2, 3, - 1, 0, 0, 0, 0] 0 (sample WEIGHTED) =
     (Inl (InvalidTimestamp (- 1)), sample WEIGHTED)
   \<and> addPoint_wrapper False exact 1 2 3 (- 1) (sample WEIGHTED) =
     (Inr (), (sample WEIGHTED)\<lparr>m_points := m_points (sample WEIGHTED) @
         [\<lparr>getPoint = (1, 2, 3), getTimestamp = - 1, getPrev = (0, 0, 0), getNext = (0, 0, 0)\<rparr>]\<rparr>)"
  using addPoint_wrapper_validation [of "- 1" exact 1 2 3 "sample WEIGHTED"
      "[1, 2, 3, - 1, 0, 0, 0, 0]" 0]
  by (simp add: is_segment_end_def SplinePoint_new_def exact_def)

text \<open>
  C9. In a build with \<^verbatim>\<open>USE_LD\<close>, \<^verbatim>\<open>resolvePosition\<close> on a curve with no points throws
  "incorrect spline data" and returns no position; on a curve with at least one point
  it returns a position, in either build, so it never takes that error path.
\<close>

theorem resolvePosition_empty:
  "(m_points s = [] \<longrightarrow> resolvePosition True ar s stamp = Inl IncorrectSplineData)
   \<and> (m_points s \<noteq> [] \<longrightarrow> (\<exists>v. resolvePosition use_ld ar s stamp = Inr v))"
  using resolvePosition_loop_Some [of s ar stamp 0 "to_float ar 0"]
  by (auto simp: resolvePosition_def)

theorem resolvePosition_empty_witness:
  "resolvePosition True exact (Spline_new WEIGHTED) 5 = Inl IncorrectSplineData
   \<and> resolvePosition True exact (sample WEIGHTED) 25 = Inr (100, 0, 0)"
  using resolvePosition_empty [of "Spline_new WEIGHTED" exact 5 True]
    resolvePosition_empty [of "sample WEIGHTED" exact 25 True]
  by (simp add: Spline_new_def sample_eq resolvePosition_def resolvePosition_loop.simps
      seq_back_def exact_def)

end
